theory Spec2Isabelle
  imports Main
begin

section \<open>Python values and errors\<close>

text \<open>
  The exceptions that the methods of \<^verbatim>\<open>CrosswordCreator\<close> (generate.py) can raise.
  A method returns \<open>Inl e\<close> when it raises \<open>e\<close>, and \<open>Inr v\<close> when it returns \<open>v\<close>.
\<close>

datatype error =
  TypeError | KeyError | ValueError | IndexError | RuntimeError | NotImplementedError

text \<open>
  generate.py imports \<^verbatim>\<open>Variable\<close> and \<^verbatim>\<open>Crossword\<close> from a module \<^verbatim>\<open>crossword\<close> that is
  not among the sources. Their interface is taken as generate.py uses it, and what
  generate.py does not determine is a parameter of the model:
  \<^item> a variable has the attributes \<^verbatim>\<open>i\<close>, \<^verbatim>\<open>j\<close>, \<^verbatim>\<open>direction\<close> and \<^verbatim>\<open>length\<close>;
  \<^item> \<^verbatim>\<open>crossword.variables\<close> is iterated (the list gives the iteration order), and
    iterating the crossword itself (line 103, "for every variable in our crossword
    puzzle") yields the same variables;
  \<^item> \<^verbatim>\<open>crossword.words\<close> is a container with \<^verbatim>\<open>copy\<close>, \<^verbatim>\<open>remove\<close>, \<^verbatim>\<open>len\<close> and iteration;
    whether it is a Python list or a Python set is the parameter \<open>container\<close>. The
    list of words gives the iteration order in both cases;
  \<^item> \<^verbatim>\<open>crossword.overlaps\<close> is a dictionary from pairs of variables to \<^verbatim>\<open>None\<close> or a
    pair of offsets;
  \<^item> \<^verbatim>\<open>crossword.neighbors\<close> is a method that returns a fresh container of variables,
    of the same kind as \<open>container\<close>, or raises; line 277 can call it on \<^verbatim>\<open>None\<close>.
\<close>

datatype direction = ACROSS | DOWN

record variable =
  var_i :: int
  var_j :: int
  var_direction :: direction
  var_length :: nat

datatype container = PyList | PySet

record crossword =
  variables :: "variable list"
  words :: "string list"
  container :: container
  overlaps :: "(variable \<times> variable) \<rightharpoonup> (nat \<times> nat) option"
  neighbors :: "variable option \<Rightarrow> error + variable list"

text \<open>\<^verbatim>\<open>self.domains\<close>: a dictionary from variables to containers of words.\<close>

type_synonym domains = "variable \<rightharpoonup> string list"

text \<open>
  An assignment is a dictionary from variables to words, in insertion order;
  \<^verbatim>\<open>assignment_complete\<close> tests a value against \<^verbatim>\<open>None\<close>, so a value is optional. The
  keys are variables: the tests \<^verbatim>\<open>var is None\<close> and \<^verbatim>\<open>neighbor is None\<close> of
  \<^verbatim>\<open>consistent\<close> never succeed.
\<close>

type_synonym assignment = "(variable \<times> string option) list"

text \<open>\<^verbatim>\<open>d[k]\<close> on a dictionary raises \<^verbatim>\<open>KeyError\<close> when the key is absent.\<close>

definition dict_get :: "('k \<rightharpoonup> 'v) \<Rightarrow> 'k \<Rightarrow> error + 'v" where
  "dict_get d k = (case d k of None \<Rightarrow> Inl KeyError | Some v \<Rightarrow> Inr v)"

text \<open>\<^verbatim>\<open>w[k]\<close> on a string raises \<^verbatim>\<open>IndexError\<close> when \<open>k\<close> is not below its length.\<close>

definition str_index :: "string \<Rightarrow> nat \<Rightarrow> error + char" where
  "str_index w k = (if k < length w then Inr (w ! k) else Inl IndexError)"

text \<open>
  \<^verbatim>\<open>c.remove(a)\<close> deletes the first occurrence of \<open>a\<close>; on an absent element a list
  raises \<^verbatim>\<open>ValueError\<close> and a set \<^verbatim>\<open>KeyError\<close>. The value of the call is \<^verbatim>\<open>None\<close>: the
  result here is the container after the call.
\<close>

definition container_remove :: "container \<Rightarrow> 'a \<Rightarrow> 'a list \<Rightarrow> error + 'a list" where
  "container_remove c a xs =
     (if a \<in> set xs then Inr (remove1 a xs)
      else Inl (case c of PyList \<Rightarrow> ValueError | PySet \<Rightarrow> KeyError))"

section \<open>The domain store\<close>

text \<open>\<^verbatim>\<open>__init__\<close>: every variable of the crossword starts with a copy of all the words.\<close>

definition init_domains :: "crossword \<Rightarrow> domains" where
  "init_domains cw = (\<lambda>var. if var \<in> set (variables cw) then Some (words cw) else None)"

section \<open>Node consistency\<close>

text \<open>
  The inner loop of \<^verbatim>\<open>enforce_node_consistency\<close> (lines 105-108) removes words from the
  container it is iterating over. \<open>ws\<close> is the container as it is now, \<open>k\<close> the position
  of the iterator and \<open>changed\<close> whether a word has been removed since the loop began.
  A list iterator reads position \<open>k\<close> of the list as it is now, so the word after a
  removed one moves to a position that was already visited. A set iterator raises
  \<^verbatim>\<open>RuntimeError\<close> at its next step once the size of the set has changed.
\<close>

function node_loop :: "container \<Rightarrow> nat \<Rightarrow> string list \<Rightarrow> nat \<Rightarrow> bool \<Rightarrow> error + string list" where
  "node_loop c n ws k changed =
     (if c = PySet \<and> changed then Inl RuntimeError
      else if k < length ws then
        (if length (ws ! k) \<noteq> n
         then node_loop c n (remove1 (ws ! k) ws) (Suc k) True
         else node_loop c n ws (Suc k) changed)
      else Inr ws)"
  by pat_completeness auto
termination
  by (relation "measure (\<lambda>(c, n, ws, k, changed). length ws - k)")
     (auto simp: length_remove1)

fun enforce_vars :: "crossword \<Rightarrow> domains \<Rightarrow> variable list \<Rightarrow> error + domains" where
  "enforce_vars cw doms [] = Inr doms"
| "enforce_vars cw doms (var # vars) =
     (case dict_get doms var of
        Inl e \<Rightarrow> Inl e
      | Inr ws \<Rightarrow>
          (case node_loop (container cw) (var_length var) ws 0 False of
             Inl e \<Rightarrow> Inl e
           | Inr ws' \<Rightarrow> enforce_vars cw (doms(var \<mapsto> ws')) vars))"

definition enforce_node_consistency :: "crossword \<Rightarrow> domains \<Rightarrow> error + domains" where
  "enforce_node_consistency cw doms = enforce_vars cw doms (variables cw)"

section \<open>Arc consistency\<close>

text \<open>
  The inner loop of \<^verbatim>\<open>revise\<close> (lines 136-142) computes \<^verbatim>\<open>conflict\<close>: it starts as
  \<^verbatim>\<open>True\<close> and becomes \<^verbatim>\<open>False\<close> at the first word of \<open>y\<close> that has the same letter at
  the overlap and is a different word.
\<close>

fun conflict_loop :: "nat \<Rightarrow> nat \<Rightarrow> string \<Rightarrow> string list \<Rightarrow> error + bool" where
  "conflict_loop overlap_x overlap_y word_x [] = Inr True"
| "conflict_loop overlap_x overlap_y word_x (word_y # rest) =
     (case str_index word_x overlap_x of
        Inl e \<Rightarrow> Inl e
      | Inr cx \<Rightarrow>
          (case str_index word_y overlap_y of
             Inl e \<Rightarrow> Inl e
           | Inr cy \<Rightarrow>
               if cx = cy \<and> word_x \<noteq> word_y then Inr False
               else conflict_loop overlap_x overlap_y word_x rest))"

text \<open>
  The outer loop of \<^verbatim>\<open>revise\<close> (lines 133-146) iterates over \<^verbatim>\<open>self.domains[x]\<close> and
  removes from it, like the loop of \<^verbatim>\<open>enforce_node_consistency\<close>: \<open>k\<close> is the position
  of the iterator, and \<open>revision\<close> is set exactly when a word has been removed.
\<close>

function revise_loop ::
  "container \<Rightarrow> nat \<Rightarrow> nat \<Rightarrow> variable \<Rightarrow> variable \<Rightarrow> domains \<Rightarrow> nat \<Rightarrow> bool
     \<Rightarrow> error + (domains \<times> bool)" where
  "revise_loop c overlap_x overlap_y x y doms k revision =
     (case dict_get doms x of
        Inl e \<Rightarrow> Inl e
      | Inr wsx \<Rightarrow>
          if c = PySet \<and> revision then Inl RuntimeError
          else if k < length wsx then
            (case dict_get doms y of
               Inl e \<Rightarrow> Inl e
             | Inr wsy \<Rightarrow>
                 (case conflict_loop overlap_x overlap_y (wsx ! k) wsy of
                    Inl e \<Rightarrow> Inl e
                  | Inr conflict \<Rightarrow>
                      if conflict
                      then revise_loop c overlap_x overlap_y x y
                             (doms(x \<mapsto> remove1 (wsx ! k) wsx)) (Suc k) True
                      else revise_loop c overlap_x overlap_y x y doms (Suc k) revision))
          else Inr (doms, revision))"
  by pat_completeness auto
termination
  by (relation "measure (\<lambda>(c, overlap_x, overlap_y, x, y, doms, k, revision).
        case doms x of None \<Rightarrow> 0 | Some ws \<Rightarrow> length ws - k)")
     (auto simp: dict_get_def length_remove1 split: option.splits)

text \<open>
  \<^verbatim>\<open>revise\<close> returns the new domains and whether a revision was made. Without an
  overlap, \<^verbatim>\<open>self.domains[y][0]\<close> reads the first word of a list and raises
  \<^verbatim>\<open>TypeError\<close> on a set.
\<close>

definition revise :: "crossword \<Rightarrow> domains \<Rightarrow> variable \<Rightarrow> variable \<Rightarrow> error + (domains \<times> bool)" where
  "revise cw doms x y =
     (if var_length x \<noteq> var_length y then Inr (doms, False)
      else
        (case dict_get (overlaps cw) (x, y) of
           Inl e \<Rightarrow> Inl e
         | Inr (Some (overlap_x, overlap_y)) \<Rightarrow>
             revise_loop (container cw) overlap_x overlap_y x y doms 0 False
         | Inr None \<Rightarrow>
             (case dict_get doms y of
                Inl e \<Rightarrow> Inl e
              | Inr wsy \<Rightarrow>
                  if length wsy = 1 then
                    (case container cw of
                       PySet \<Rightarrow> Inl TypeError
                     | PyList \<Rightarrow>
                         (case dict_get doms x of
                            Inl e \<Rightarrow> Inl e
                          | Inr wsx \<Rightarrow>
                              if wsy ! 0 \<in> set wsx
                              then Inr (doms(x \<mapsto> remove1 (wsy ! 0) wsx), True)
                              else Inr (doms, False)))
                  else Inr (doms, False))))"

text \<open>The initial list of arcs (lines 168-172): every variable paired with its neighbors.\<close>

fun initial_arcs :: "crossword \<Rightarrow> variable list \<Rightarrow> error + (variable \<times> variable) list" where
  "initial_arcs cw [] = Inr []"
| "initial_arcs cw (var # vars) =
     (case neighbors cw (Some var) of
        Inl e \<Rightarrow> Inl e
      | Inr ns \<Rightarrow>
          (case initial_arcs cw vars of
             Inl e \<Rightarrow> Inl e
           | Inr arcs \<Rightarrow> Inr (map (Pair var) ns @ arcs)))"

text \<open>
  The worklist loop (lines 176-189). After a revision that leaves the domain of \<open>x\<close>
  non-empty, line 185 binds \<^verbatim>\<open>neighbors\<close> to the value of \<^verbatim>\<open>remove\<close>, which is \<^verbatim>\<open>None\<close>
  (or \<^verbatim>\<open>remove\<close> raises, when \<open>y\<close> is not among the neighbors), and line 186 iterates it:
  \<^verbatim>\<open>TypeError\<close>. No path reaches \<^verbatim>\<open>arcs.append\<close>.
\<close>

fun ac3_loop :: "crossword \<Rightarrow> domains \<Rightarrow> (variable \<times> variable) list \<Rightarrow> error + (domains \<times> bool)" where
  "ac3_loop cw doms [] = Inr (doms, True)"
| "ac3_loop cw doms ((x, y) # arcs) =
     (case revise cw doms x y of
        Inl e \<Rightarrow> Inl e
      | Inr (doms', revised) \<Rightarrow>
          if revised then
            (case dict_get doms' x of
               Inl e \<Rightarrow> Inl e
             | Inr wsx \<Rightarrow>
                 if length wsx = 0 then Inr (doms', False)
                 else
                   (case neighbors cw (Some x) of
                      Inl e \<Rightarrow> Inl e
                    | Inr ns \<Rightarrow>
                        (case container_remove (container cw) y ns of
                           Inl e \<Rightarrow> Inl e
                         | Inr ns' \<Rightarrow> Inl TypeError)))
          else ac3_loop cw doms' arcs)"

definition ac3 ::
  "crossword \<Rightarrow> domains \<Rightarrow> (variable \<times> variable) list option \<Rightarrow> error + (domains \<times> bool)" where
  "ac3 cw doms arcs =
     (case arcs of
        None \<Rightarrow>
          (case initial_arcs cw (variables cw) of
             Inl e \<Rightarrow> Inl e
           | Inr arcs' \<Rightarrow> ac3_loop cw doms arcs')
      | Some arcs' \<Rightarrow> ac3_loop cw doms arcs')"

text \<open>The number of iterations the worklist loop performs, by the same recursion.\<close>

fun ac3_iterations :: "crossword \<Rightarrow> domains \<Rightarrow> (variable \<times> variable) list \<Rightarrow> nat" where
  "ac3_iterations cw doms [] = 0"
| "ac3_iterations cw doms ((x, y) # arcs) =
     Suc (case revise cw doms x y of
            Inl e \<Rightarrow> 0
          | Inr (doms', revised) \<Rightarrow> if revised then 0 else ac3_iterations cw doms' arcs)"

section \<open>Assignments\<close>

text \<open>\<^verbatim>\<open>assignment[var]\<close> is \<open>dict_get (map_of assignment) var\<close>; the keys are \<open>map fst\<close>.\<close>

fun complete_loop :: "assignment \<Rightarrow> variable list \<Rightarrow> bool" where
  "complete_loop assignment [] = True"
| "complete_loop assignment (var # vars) =
     (if map_of assignment var = Some None then False
      else complete_loop assignment vars)"

text \<open>\<^verbatim>\<open>assignment_complete\<close> (lines 192-201) reads the assignment only.\<close>

definition assignment_complete :: "crossword \<Rightarrow> assignment \<Rightarrow> bool" where
  "assignment_complete cw assignment = complete_loop assignment (map fst assignment)"

text \<open>Subscripting an assigned value: \<^verbatim>\<open>None[k]\<close> raises \<^verbatim>\<open>TypeError\<close>.\<close>

definition word_index :: "string option \<Rightarrow> nat \<Rightarrow> error + char" where
  "word_index v k = (case v of None \<Rightarrow> Inl TypeError | Some w \<Rightarrow> str_index w k)"

text \<open>
  The loop over the neighbors of \<open>var\<close> in \<^verbatim>\<open>consistent\<close> (lines 215-221): \<open>Inr False\<close>
  when it returns \<^verbatim>\<open>False\<close>, \<open>Inr True\<close> when it ends. Unpacking an overlap that is
  \<^verbatim>\<open>None\<close> raises \<^verbatim>\<open>TypeError\<close>.
\<close>

fun neighbors_loop :: "crossword \<Rightarrow> assignment \<Rightarrow> variable \<Rightarrow> variable list \<Rightarrow> error + bool" where
  "neighbors_loop cw assignment var [] = Inr True"
| "neighbors_loop cw assignment var (neighbor # rest) =
     (case dict_get (overlaps cw) (var, neighbor) of
        Inl e \<Rightarrow> Inl e
      | Inr None \<Rightarrow> Inl TypeError
      | Inr (Some (overlap_var, overlap_neighbor)) \<Rightarrow>
          (case dict_get (map_of assignment) var of
             Inl e \<Rightarrow> Inl e
           | Inr v \<Rightarrow>
               (case word_index v overlap_var of
                  Inl e \<Rightarrow> Inl e
                | Inr a \<Rightarrow>
                    (case dict_get (map_of assignment) neighbor of
                       Inl e \<Rightarrow> Inl e
                     | Inr u \<Rightarrow>
                         (case word_index u overlap_neighbor of
                            Inl e \<Rightarrow> Inl e
                          | Inr b \<Rightarrow>
                              if a \<noteq> b then Inr False
                              else neighbors_loop cw assignment var rest)))))"

fun consistent_loop :: "crossword \<Rightarrow> assignment \<Rightarrow> variable list \<Rightarrow> error + bool" where
  "consistent_loop cw assignment [] = Inr True"
| "consistent_loop cw assignment (var # vars) =
     (case dict_get (map_of assignment) var of
        Inl e \<Rightarrow> Inl e
      | Inr None \<Rightarrow> Inl TypeError
      | Inr (Some w) \<Rightarrow>
          if length w \<noteq> var_length var then Inr False
          else
            (case neighbors cw (Some var) of
               Inl e \<Rightarrow> Inl e
             | Inr ns \<Rightarrow>
                 (case neighbors_loop cw assignment var ns of
                    Inl e \<Rightarrow> Inl e
                  | Inr ok \<Rightarrow>
                      if ok then consistent_loop cw assignment vars else Inr False)))"

definition consistent :: "crossword \<Rightarrow> assignment \<Rightarrow> error + bool" where
  "consistent cw assignment = consistent_loop cw assignment (map fst assignment)"

section \<open>Variable selection\<close>

text \<open>
  The loop of \<^verbatim>\<open>select_unassigned_variable\<close> (lines 264-273) over the state
  \<^verbatim>\<open>(least_domain_var, equal_domain_var, least_domain_count)\<close>, which starts as
  \<^verbatim>\<open>(None, None, 0)\<close>.
\<close>

fun select_loop ::
  "domains \<Rightarrow> assignment \<Rightarrow> variable list \<Rightarrow> variable option \<times> variable option \<times> nat
     \<Rightarrow> error + (variable option \<times> variable option \<times> nat)" where
  "select_loop doms assignment [] st = Inr st"
| "select_loop doms assignment (var # vars) (least_domain_var, equal_domain_var, least_domain_count) =
     (if var \<in> set (map fst assignment)
      then select_loop doms assignment vars (least_domain_var, equal_domain_var, least_domain_count)
      else
        (case dict_get doms var of
           Inl e \<Rightarrow> Inl e
         | Inr ws \<Rightarrow>
             if length ws < least_domain_count
             then select_loop doms assignment vars (Some var, None, length ws)
             else if length ws = least_domain_count
             then select_loop doms assignment vars (least_domain_var, Some var, least_domain_count)
             else select_loop doms assignment vars
                    (least_domain_var, equal_domain_var, least_domain_count)))"

definition select_unassigned_variable ::
  "crossword \<Rightarrow> domains \<Rightarrow> assignment \<Rightarrow> error + variable option" where
  "select_unassigned_variable cw doms assignment =
     (case select_loop doms assignment (variables cw) (None, None, 0) of
        Inl e \<Rightarrow> Inl e
      | Inr (least_domain_var, equal_domain_var, least_domain_count) \<Rightarrow>
          (case equal_domain_var of
             None \<Rightarrow> Inr least_domain_var
           | Some ev \<Rightarrow>
               (case neighbors cw (Some ev) of
                  Inl e \<Rightarrow> Inl e
                | Inr ne \<Rightarrow>
                    (case neighbors cw least_domain_var of
                       Inl e \<Rightarrow> Inl e
                     | Inr nl \<Rightarrow>
                         if length ne > length nl then Inr (Some ev)
                         else Inr least_domain_var))))"

section \<open>Search\<close>

text \<open>\<^verbatim>\<open>backtrack\<close> (lines 285-294) is the single statement \<^verbatim>\<open>raise NotImplementedError\<close>.\<close>

definition backtrack :: "crossword \<Rightarrow> domains \<Rightarrow> assignment \<Rightarrow> error + assignment option" where
  "backtrack cw doms assignment = Inl NotImplementedError"

text \<open>
  \<^verbatim>\<open>solve\<close> (lines 88-94) on a freshly constructed \<^verbatim>\<open>CrosswordCreator\<close>. The value that
  \<^verbatim>\<open>ac3\<close> returns is dropped.
\<close>

definition solve :: "crossword \<Rightarrow> error + assignment option" where
  "solve cw =
     (case enforce_node_consistency cw (init_domains cw) of
        Inl e \<Rightarrow> Inl e
      | Inr doms1 \<Rightarrow>
          (case ac3 cw doms1 None of
             Inl e \<Rightarrow> Inl e
           | Inr (doms2, arc_consistent) \<Rightarrow> backtrack cw doms2 []))"

section \<open>Example puzzles\<close>

text \<open>
  Slots that start in the top left cell: one across and one down of length 3, and one
  down of length 4.
\<close>

definition across3 :: variable where
  "across3 = \<lparr>var_i = 0, var_j = 0, var_direction = ACROSS, var_length = 3\<rparr>"

definition down3 :: variable where
  "down3 = \<lparr>var_i = 0, var_j = 0, var_direction = DOWN, var_length = 3\<rparr>"

definition down4 :: variable where
  "down4 = \<lparr>var_i = 0, var_j = 0, var_direction = DOWN, var_length = 4\<rparr>"

text \<open>
  A puzzle of two slots \<open>a\<close> and \<open>d\<close> that cross in their first letters, and a puzzle of
  the single slot \<open>across3\<close>. \<^verbatim>\<open>neighbors\<close> raises \<^verbatim>\<open>KeyError\<close> outside the puzzle.
\<close>

definition crossing :: "variable \<Rightarrow> variable \<Rightarrow> container \<Rightarrow> string list \<Rightarrow> crossword" where
  "crossing a d c ws =
     \<lparr>variables = [a, d], words = ws, container = c,
      overlaps = [(a, d) \<mapsto> Some (0, 0), (d, a) \<mapsto> Some (0, 0)],
      neighbors = (\<lambda>v. if v = Some a then Inr [d]
                        else if v = Some d then Inr [a] else Inl KeyError)\<rparr>"

definition single :: "container \<Rightarrow> string list \<Rightarrow> crossword" where
  "single c ws =
     \<lparr>variables = [across3], words = ws, container = c,
      overlaps = Map.empty,
      neighbors = (\<lambda>v. if v = Some across3 then Inr [] else Inl KeyError)\<rparr>"

text \<open>The word list of the example scenario of the specification, in both slots.\<close>

definition ex_words :: "string list" where
  "ex_words = [''ABC'', ''ABD'', ''XYZ'']"

definition ex_doms :: domains where
  "ex_doms = [across3 \<mapsto> ex_words, down3 \<mapsto> ex_words]"

section \<open>Properties of the loops\<close>

lemmas example_defs = across3_def down3_def down4_def crossing_def single_def
  ex_words_def ex_doms_def

lemmas method_defs = enforce_node_consistency_def init_domains_def dict_get_def
  revise_def ac3_def str_index_def container_remove_def solve_def backtrack_def
  consistent_def word_index_def select_unassigned_variable_def assignment_complete_def

text \<open>
  The outer loop of \<^verbatim>\<open>revise\<close> changes the domain of \<open>x\<close> only, never adds a word, and
  reports a revision exactly when the domain got shorter.
\<close>

lemma revise_loop_result:
  "revise_loop c ox oy x y doms k rv = Inr (doms', r) \<Longrightarrow>
     \<exists>ws ws'. doms x = Some ws \<and> doms' = doms(x \<mapsto> ws') \<and> set ws' \<subseteq> set ws \<and>
       length ws' \<le> length ws \<and>
       (if r then rv \<or> length ws' < length ws else ws' = ws \<and> \<not> rv)"
proof (induction c ox oy x y doms k rv arbitrary: doms' r rule: revise_loop.induct)
  case (1 c ox oy x y doms k rv)
  from "1.prems" obtain wsx where wsx: "doms x = Some wsx"
    by (subst (asm) revise_loop.simps) (auto simp: dict_get_def split: option.splits)
  have gx: "dict_get doms x = Inr wsx" by (simp add: dict_get_def wsx)
  show ?case
  proof (cases "k < length wsx")
    case False
    with "1.prems" gx have "doms' = doms" "r = rv"
      by (subst (asm) revise_loop.simps, auto split: if_splits)+
    moreover have "doms = doms(x \<mapsto> wsx)"
      using wsx by (simp add: map_upd_triv)
    ultimately show ?thesis using wsx by (intro exI[of _ wsx]) auto
  next
    case True
    from "1.prems" gx True have nr: "\<not> (c = PySet \<and> rv)"
      by (subst (asm) revise_loop.simps) (auto split: if_splits)
    from "1.prems" gx True nr obtain wsy conflict where
      gy: "dict_get doms y = Inr wsy" and cl: "conflict_loop ox oy (wsx ! k) wsy = Inr conflict"
      by (subst (asm) revise_loop.simps) (auto split: if_splits sum.splits)
    show ?thesis
    proof (cases conflict)
      case True
      with "1.prems" gx \<open>k < length wsx\<close> nr gy cl
      have rec: "revise_loop c ox oy x y (doms(x \<mapsto> remove1 (wsx ! k) wsx)) (Suc k) True
                   = Inr (doms', r)"
        by (subst (asm) revise_loop.simps) (auto split: if_splits)
      from "1.IH"(1)[OF gx nr \<open>k < length wsx\<close> gy cl True rec]
      obtain ws0 ws' where w0: "(doms(x \<mapsto> remove1 (wsx ! k) wsx)) x = Some ws0"
        and d0: "doms' = (doms(x \<mapsto> remove1 (wsx ! k) wsx))(x \<mapsto> ws')"
        and sub0: "set ws' \<subseteq> set ws0" and le0: "length ws' \<le> length ws0"
        and r0: "if r then True \<or> length ws' < length ws0 else ws' = ws0 \<and> \<not> True"
        by blast
      from w0 have ws0: "ws0 = remove1 (wsx ! k) wsx" by simp
      from d0 have d': "doms' = doms(x \<mapsto> ws')" by simp
      from sub0 ws0 have sub: "set ws' \<subseteq> set (remove1 (wsx ! k) wsx)" by simp
      from le0 ws0 have le: "length ws' \<le> length (remove1 (wsx ! k) wsx)" by simp
      from r0 have r: "r" by (cases r) simp_all
      have "length (remove1 (wsx ! k) wsx) < length wsx"
        using \<open>k < length wsx\<close> by (simp add: length_remove1)
      with le have "length ws' < length wsx" by simp
      moreover from sub set_remove1_subset[of "wsx ! k" wsx] have "set ws' \<subseteq> set wsx"
        by blast
      ultimately show ?thesis using r wsx d'
        by (intro exI[of _ wsx] exI[of _ ws']) simp
    next
      case False
      with "1.prems" gx \<open>k < length wsx\<close> nr gy cl
      have rec: "revise_loop c ox oy x y doms (Suc k) rv = Inr (doms', r)"
        by (subst (asm) revise_loop.simps) (auto split: if_splits)
      from "1.IH"(2)[OF gx nr \<open>k < length wsx\<close> gy cl False rec] wsx
      show ?thesis by auto
    qed
  qed
qed

lemma revise_result:
  assumes "revise cw doms x y = Inr (doms', revised)"
  shows "if revised
         then (\<exists>ws ws'. doms x = Some ws \<and> doms' = doms(x \<mapsto> ws') \<and>
                 length ws' < length ws \<and> set ws' \<subseteq> set ws)
         else doms' = doms"
proof (cases "var_length x \<noteq> var_length y")
  case True
  with assms show ?thesis by (simp add: revise_def)
next
  case False
  then have len: "var_length x = var_length y" by simp
  from assms len obtain ov where ov: "dict_get (overlaps cw) (x, y) = Inr ov"
    by (auto simp: revise_def split: sum.splits)
  show ?thesis
  proof (cases ov)
    case None
    show ?thesis
    proof (cases revised)
      case False
      with assms len ov None show ?thesis
        by (auto simp: revise_def split: sum.splits if_splits container.splits)
    next
      case True
      with assms len ov None obtain wsy wsx where
        wsx: "doms x = Some wsx" and mem: "wsy ! 0 \<in> set wsx"
        and d': "doms' = doms(x \<mapsto> remove1 (wsy ! 0) wsx)"
        by (auto simp: revise_def dict_get_def
            split: sum.splits if_splits container.splits option.splits)
      from mem have "length (remove1 (wsy ! 0) wsx) < length wsx"
        using length_pos_if_in_set[OF mem] by (simp add: length_remove1)
      moreover have "set (remove1 (wsy ! 0) wsx) \<subseteq> set wsx"
        by (rule set_remove1_subset)
      ultimately show ?thesis using True wsx d' by auto
    qed
  next
    case (Some p)
    obtain ox oy where p: "p = (ox, oy)" by (cases p)
    from assms len ov Some p
    have "revise_loop (container cw) ox oy x y doms 0 False = Inr (doms', revised)"
      by (simp add: revise_def)
    from revise_loop_result[OF this] show ?thesis
      by (auto split: if_splits)
  qed
qed

lemma ac3_iterations_le: "ac3_iterations cw doms arcs \<le> length arcs"
  by (induction cw doms arcs rule: ac3_iterations.induct) (auto split: sum.splits)

section \<open>The claims\<close>

text \<open>
  C8 (node consistency). On a list, \<^verbatim>\<open>enforce_node_consistency\<close> returns with a word
  of the wrong length left in the domain: removing \<open>''A''\<close> moves \<open>''B''\<close> to the position
  the iterator has passed, so \<open>''B''\<close> (length 1) stays in the domain of a slot of length
  3. On a set the same removal makes the iterator raise \<^verbatim>\<open>RuntimeError\<close>.
\<close>

theorem enforce_node_consistency_leaves_short_word:
  "init_domains (single c [''A'', ''B'', ''ABC'']) = [across3 \<mapsto> [''A'', ''B'', ''ABC'']] \<and>
   enforce_node_consistency (single PyList [''A'', ''B'', ''ABC''])
       [across3 \<mapsto> [''A'', ''B'', ''ABC'']]
     = Inr [across3 \<mapsto> [''B'', ''ABC'']] \<and>
   enforce_node_consistency (single PySet [''A'', ''B'', ''ABC''])
       [across3 \<mapsto> [''A'', ''B'', ''ABC'']]
     = Inl RuntimeError"
proof -
  have "init_domains (single c [''A'', ''B'', ''ABC'']) = [across3 \<mapsto> [''A'', ''B'', ''ABC'']]"
    by (auto simp: init_domains_def single_def)
  moreover have "enforce_node_consistency (single PyList [''A'', ''B'', ''ABC''])
       [across3 \<mapsto> [''A'', ''B'', ''ABC'']] = Inr [across3 \<mapsto> [''B'', ''ABC'']]"
    by (simp add: method_defs example_defs)
  moreover have "enforce_node_consistency (single PySet [''A'', ''B'', ''ABC''])
       [across3 \<mapsto> [''A'', ''B'', ''ABC'']] = Inl RuntimeError"
    by (simp add: method_defs example_defs)
  ultimately show ?thesis by simp
qed

text \<open>
  C1 (solve never returns). Whatever the puzzle, \<^verbatim>\<open>solve\<close> ends by raising: when node
  and arc consistency raise nothing, it calls \<^verbatim>\<open>backtrack\<close>, whose body is
  \<^verbatim>\<open>raise NotImplementedError\<close>. On the puzzle of one slot and the word \<open>''ABC''\<close>, which
  has the solution \<open>''ABC''\<close>, the error is \<^verbatim>\<open>NotImplementedError\<close>.
\<close>

theorem solve_raises:
  "(\<exists>e. solve cw = Inl e) \<and> solve (single PyList [''ABC'']) = Inl NotImplementedError"
proof -
  have "\<exists>e. solve cw = Inl e"
    by (auto simp: solve_def backtrack_def split: sum.splits)
  moreover have "solve (single PyList [''ABC'']) = Inl NotImplementedError"
    by (simp add: method_defs example_defs)
  ultimately show ?thesis by simp
qed

text \<open>
  C2, as stated, fails. With the single word \<open>''ABC''\<close> for two crossing slots of
  length 3, node consistency removes nothing, \<^verbatim>\<open>ac3\<close> empties the domain of the across
  slot and returns \<^verbatim>\<open>False\<close>, and \<^verbatim>\<open>solve\<close> still goes on to \<^verbatim>\<open>backtrack\<close>: its outcome
  is the \<^verbatim>\<open>NotImplementedError\<close> of \<^verbatim>\<open>backtrack\<close>, not the no-solution value.
\<close>

theorem solve_after_emptied_domain_counterexample:
  "enforce_node_consistency (crossing across3 down3 PyList [''ABC''])
       (init_domains (crossing across3 down3 PyList [''ABC'']))
     = Inr [across3 \<mapsto> [''ABC''], down3 \<mapsto> [''ABC'']] \<and>
   ac3 (crossing across3 down3 PyList [''ABC''])
       [across3 \<mapsto> [''ABC''], down3 \<mapsto> [''ABC'']] None
     = Inr ([across3 \<mapsto> [''ABC''], down3 \<mapsto> [''ABC'']](across3 \<mapsto> []), False) \<and>
   solve (crossing across3 down3 PyList [''ABC'']) = Inl NotImplementedError \<and>
   solve (crossing across3 down3 PyList [''ABC'']) \<noteq> Inr None"
proof -
  have "enforce_node_consistency (crossing across3 down3 PyList [''ABC''])
       (init_domains (crossing across3 down3 PyList [''ABC'']))
     = Inr [across3 \<mapsto> [''ABC''], down3 \<mapsto> [''ABC'']]"
    by (simp add: method_defs example_defs) (auto simp: fun_eq_iff)
  moreover have "ac3 (crossing across3 down3 PyList [''ABC''])
       [across3 \<mapsto> [''ABC''], down3 \<mapsto> [''ABC'']] None
     = Inr ([across3 \<mapsto> [''ABC''], down3 \<mapsto> [''ABC'']](across3 \<mapsto> []), False)"
    by (simp add: method_defs example_defs)
  moreover have "solve (crossing across3 down3 PyList [''ABC'']) = Inl NotImplementedError"
    by (simp add: method_defs example_defs)
  ultimately show ?thesis by simp
qed

text \<open>
  C2, amended. \<^verbatim>\<open>solve\<close> drops the value that \<^verbatim>\<open>ac3\<close> returns: whenever node
  consistency and \<^verbatim>\<open>ac3\<close> return, also when \<^verbatim>\<open>ac3\<close> returns \<^verbatim>\<open>False\<close> because a domain is
  empty, the outcome of \<^verbatim>\<open>solve\<close> is the outcome of \<^verbatim>\<open>backtrack\<close> on the empty assignment.
\<close>

theorem solve_is_backtrack:
  assumes "enforce_node_consistency cw (init_domains cw) = Inr doms1"
    and "ac3 cw doms1 None = Inr (doms2, arc_consistent)"
  shows "solve cw = backtrack cw doms2 []"
  using assms by (simp add: solve_def)

text \<open>
  Witness for C2, amended: the puzzle of the counterexample, where \<^verbatim>\<open>ac3\<close> returns
  \<^verbatim>\<open>False\<close>.
\<close>

theorem solve_is_backtrack_witness:
  "enforce_node_consistency (crossing across3 down3 PyList [''ABC''])
       (init_domains (crossing across3 down3 PyList [''ABC'']))
     = Inr [across3 \<mapsto> [''ABC''], down3 \<mapsto> [''ABC'']] \<and>
   ac3 (crossing across3 down3 PyList [''ABC''])
       [across3 \<mapsto> [''ABC''], down3 \<mapsto> [''ABC'']] None
     = Inr ([across3 \<mapsto> [''ABC''], down3 \<mapsto> [''ABC'']](across3 \<mapsto> []), False) \<and>
   solve (crossing across3 down3 PyList [''ABC''])
     = backtrack (crossing across3 down3 PyList [''ABC''])
         ([across3 \<mapsto> [''ABC''], down3 \<mapsto> [''ABC'']](across3 \<mapsto> [])) []"
proof -
  have h1: "enforce_node_consistency (crossing across3 down3 PyList [''ABC''])
       (init_domains (crossing across3 down3 PyList [''ABC'']))
     = Inr [across3 \<mapsto> [''ABC''], down3 \<mapsto> [''ABC'']]"
    by (simp add: method_defs example_defs) (auto simp: fun_eq_iff)
  have h2: "ac3 (crossing across3 down3 PyList [''ABC''])
       [across3 \<mapsto> [''ABC''], down3 \<mapsto> [''ABC'']] None
     = Inr ([across3 \<mapsto> [''ABC''], down3 \<mapsto> [''ABC'']](across3 \<mapsto> []), False)"
    by (simp add: method_defs example_defs)
  from solve_is_backtrack [OF h1 h2] h1 h2 show ?thesis by simp
qed

text \<open>
  C3 (revise). For the across slot of length 3 and the crossing down slot of length 4,
  \<^verbatim>\<open>revise\<close> returns at line 122 without a revision: \<open>''ABC''\<close> stays in the domain of the
  across slot although the only word of the down slot, \<open>''XYZW''\<close>, has another first
  letter (\<open>conflict_loop\<close> finds the conflict). With equal lengths, removing \<open>''XAA''\<close>
  from a list makes the iterator skip \<open>''YBB''\<close>, which stays without a partner; on a
  set the removal raises \<^verbatim>\<open>RuntimeError\<close>.
\<close>

theorem revise_keeps_unsupported_word:
  "overlaps (crossing across3 down4 PyList [''ABC'', ''XYZW'']) (across3, down4) = Some (Some (0, 0)) \<and>
   conflict_loop 0 0 ''ABC'' [''XYZW''] = Inr True \<and>
   revise (crossing across3 down4 PyList [''ABC'', ''XYZW''])
       [across3 \<mapsto> [''ABC''], down4 \<mapsto> [''XYZW'']] across3 down4
     = Inr ([across3 \<mapsto> [''ABC''], down4 \<mapsto> [''XYZW'']], False) \<and>
   conflict_loop 0 0 ''YBB'' [''ZZZ''] = Inr True \<and>
   revise (crossing across3 down3 PyList [''XAA'', ''YBB'', ''ZZZ''])
       [across3 \<mapsto> [''XAA'', ''YBB''], down3 \<mapsto> [''ZZZ'']] across3 down3
     = Inr ([across3 \<mapsto> [''XAA'', ''YBB''], down3 \<mapsto> [''ZZZ'']](across3 \<mapsto> [''YBB'']), True) \<and>
   revise (crossing across3 down3 PySet [''XAA'', ''YBB'', ''ZZZ''])
       [across3 \<mapsto> [''XAA'', ''YBB''], down3 \<mapsto> [''ZZZ'']] across3 down3
     = Inl RuntimeError"
proof -
  have "overlaps (crossing across3 down4 PyList [''ABC'', ''XYZW'']) (across3, down4)
      = Some (Some (0, 0))"
    by (simp add: example_defs)
  moreover have "conflict_loop 0 0 ''ABC'' [''XYZW''] = Inr True"
    by (simp add: str_index_def)
  moreover have "revise (crossing across3 down4 PyList [''ABC'', ''XYZW''])
       [across3 \<mapsto> [''ABC''], down4 \<mapsto> [''XYZW'']] across3 down4
     = Inr ([across3 \<mapsto> [''ABC''], down4 \<mapsto> [''XYZW'']], False)"
    by (simp add: method_defs example_defs)
  moreover have "conflict_loop 0 0 ''YBB'' [''ZZZ''] = Inr True"
    by (simp add: str_index_def)
  moreover have "revise (crossing across3 down3 PyList [''XAA'', ''YBB'', ''ZZZ''])
       [across3 \<mapsto> [''XAA'', ''YBB''], down3 \<mapsto> [''ZZZ'']] across3 down3
     = Inr ([across3 \<mapsto> [''XAA'', ''YBB''], down3 \<mapsto> [''ZZZ'']](across3 \<mapsto> [''YBB'']), True)"
    by (simp add: method_defs example_defs)
  moreover have "revise (crossing across3 down3 PySet [''XAA'', ''YBB'', ''ZZZ''])
       [across3 \<mapsto> [''XAA'', ''YBB''], down3 \<mapsto> [''ZZZ'']] across3 down3
     = Inl RuntimeError"
    by (simp add: method_defs example_defs)
  ultimately show ?thesis by simp
qed

text \<open>
  C4 (re-queueing). On the example scenario of the specification, revising the arc
  from the across slot to the down slot removes \<open>''XYZ''\<close> and leaves two words; \<^verbatim>\<open>ac3\<close>
  then iterates over the value of \<^verbatim>\<open>remove\<close>, which is \<^verbatim>\<open>None\<close>, and raises \<^verbatim>\<open>TypeError\<close>
  instead of appending arcs and going on. On a set the revision itself raises
  \<^verbatim>\<open>RuntimeError\<close>.
\<close>

theorem ac3_raises_after_revision:
  "revise (crossing across3 down3 PyList ex_words) ex_doms across3 down3
     = Inr (ex_doms(across3 \<mapsto> [''ABC'', ''ABD'']), True) \<and>
   ac3 (crossing across3 down3 PyList ex_words) ex_doms None = Inl TypeError \<and>
   ac3 (crossing across3 down3 PyList ex_words) ex_doms (Some [(across3, down3)]) = Inl TypeError \<and>
   ac3 (crossing across3 down3 PySet ex_words) ex_doms None = Inl RuntimeError"
proof -
  have "revise (crossing across3 down3 PyList ex_words) ex_doms across3 down3
     = Inr (ex_doms(across3 \<mapsto> [''ABC'', ''ABD'']), True)"
    by (simp add: method_defs example_defs)
  moreover have "ac3 (crossing across3 down3 PyList ex_words) ex_doms None = Inl TypeError"
    by (simp add: method_defs example_defs)
  moreover have "ac3 (crossing across3 down3 PyList ex_words) ex_doms (Some [(across3, down3)])
      = Inl TypeError"
    by (simp add: method_defs example_defs)
  moreover have "ac3 (crossing across3 down3 PySet ex_words) ex_doms None = Inl RuntimeError"
    by (simp add: method_defs example_defs)
  ultimately show ?thesis by simp
qed

text \<open>
  C5 (consistent). With the across slot assigned and its neighbor, the down slot, not
  yet assigned, \<^verbatim>\<open>consistent\<close> reads \<^verbatim>\<open>assignment[neighbor]\<close> and raises \<^verbatim>\<open>KeyError\<close>: an
  unassigned neighbor is not ignored. And an assignment that gives the same word to
  both slots is accepted: nothing compares the words of two variables.
\<close>

theorem consistent_unassigned_neighbor_and_reuse:
  "neighbors (crossing across3 down3 PyList ex_words) (Some across3) = Inr [down3] \<and>
   consistent (crossing across3 down3 PyList ex_words) [(across3, Some ''ABC'')]
     = Inl KeyError \<and>
   consistent (crossing across3 down3 PyList ex_words)
       [(across3, Some ''ABC''), (down3, Some ''ABC'')]
     = Inr True"
proof -
  have "neighbors (crossing across3 down3 PyList ex_words) (Some across3) = Inr [down3]"
    by (simp add: example_defs)
  moreover have "consistent (crossing across3 down3 PyList ex_words) [(across3, Some ''ABC'')]
     = Inl KeyError"
    by (simp add: method_defs example_defs)
  moreover have "consistent (crossing across3 down3 PyList ex_words)
       [(across3, Some ''ABC''), (down3, Some ''ABC'')] = Inr True"
    by (simp add: method_defs example_defs)
  ultimately show ?thesis by simp
qed

text \<open>
  C6 (assignment_complete). The method looks at the entries of the assignment only:
  on the puzzle of two slots it returns \<^verbatim>\<open>True\<close> for the empty assignment, and for the
  assignment of the across slot alone.
\<close>

theorem assignment_complete_on_partial_assignment:
  "variables (crossing across3 down3 PyList ex_words) = [across3, down3] \<and>
   assignment_complete (crossing across3 down3 PyList ex_words) [] = True \<and>
   assignment_complete (crossing across3 down3 PyList ex_words) [(across3, Some ''ABC'')] = True"
  by (simp add: assignment_complete_def example_defs)

text \<open>
  C7 (variable selection). \<^verbatim>\<open>least_domain_count\<close> starts at 0 and no domain is shorter
  than that, so \<^verbatim>\<open>least_domain_var\<close> is never bound. On the example scenario, with two
  unassigned slots of three words each, the method returns \<^verbatim>\<open>None\<close> and no variable.
\<close>

theorem select_unassigned_variable_returns_None:
  "select_unassigned_variable (crossing across3 down3 PyList ex_words) ex_doms [] = Inr None"
  by (simp add: method_defs example_defs)

text \<open>
  C9 (termination of ac3). The worklist loop performs at most as many iterations as
  the initial list has arcs, and a call of \<^verbatim>\<open>revise\<close> that returns either reports no
  revision and leaves all domains as they are, or reports a revision and has replaced
  the domain of \<open>x\<close> alone by a strictly shorter one with no new word.
\<close>

theorem ac3_terminates:
  "ac3_iterations cw doms arcs \<le> length arcs \<and>
   (\<forall>x y doms' revised. revise cw doms x y = Inr (doms', revised) \<longrightarrow>
      (if revised
       then (\<exists>ws ws'. doms x = Some ws \<and> doms' = doms(x \<mapsto> ws') \<and>
               length ws' < length ws \<and> set ws' \<subseteq> set ws)
       else doms' = doms))"
  using ac3_iterations_le revise_result by blast

text \<open>
  Witness for C9: the example scenario, where revising the first arc shortens the
  domain of the across slot from three words to two.
\<close>

theorem ac3_terminates_witness:
  "revise (crossing across3 down3 PyList ex_words) ex_doms across3 down3
     = Inr (ex_doms(across3 \<mapsto> [''ABC'', ''ABD'']), True) \<and>
   ac3_iterations (crossing across3 down3 PyList ex_words) ex_doms
       [(across3, down3), (down3, across3)] \<le> 2 \<and>
   (\<exists>ws ws'. ex_doms across3 = Some ws \<and>
      ex_doms(across3 \<mapsto> [''ABC'', ''ABD'']) = ex_doms(across3 \<mapsto> ws') \<and>
      length ws' < length ws \<and> set ws' \<subseteq> set ws)"
proof -
  have h: "revise (crossing across3 down3 PyList ex_words) ex_doms across3 down3
     = Inr (ex_doms(across3 \<mapsto> [''ABC'', ''ABD'']), True)"
    by (simp add: method_defs example_defs)
  note t = ac3_terminates [of "crossing across3 down3 PyList ex_words" ex_doms
      "[(across3, down3), (down3, across3)]"]
  from t have "ac3_iterations (crossing across3 down3 PyList ex_words) ex_doms
       [(across3, down3), (down3, across3)] \<le> 2"
    by simp
  moreover from t h have "\<exists>ws ws'. ex_doms across3 = Some ws \<and>
      ex_doms(across3 \<mapsto> [''ABC'', ''ABD'']) = ex_doms(across3 \<mapsto> ws') \<and>
      length ws' < length ws \<and> set ws' \<subseteq> set ws"
    by (metis (full_types))
  ultimately show ?thesis using h by simp
qed

text \<open>
  C10 (same word as partner). With the words \<open>''AXX''\<close> and \<open>''BYY''\<close> in both of two
  crossing slots of length 3, each word has only itself as a partner with the same first
  letter, and \<open>conflict_loop\<close> reports the conflict for both. \<^verbatim>\<open>revise\<close> on a list removes
  \<open>''AXX''\<close>, skips \<open>''BYY''\<close> and returns with \<open>''BYY''\<close> still in the domain; on a set it
  raises \<^verbatim>\<open>RuntimeError\<close> after the first removal.
\<close>

theorem revise_keeps_word_with_itself_as_partner:
  "conflict_loop 0 0 ''AXX'' [''AXX'', ''BYY''] = Inr True \<and>
   conflict_loop 0 0 ''BYY'' [''AXX'', ''BYY''] = Inr True \<and>
   revise (crossing across3 down3 PyList [''AXX'', ''BYY''])
       [across3 \<mapsto> [''AXX'', ''BYY''], down3 \<mapsto> [''AXX'', ''BYY'']] across3 down3
     = Inr ([across3 \<mapsto> [''AXX'', ''BYY''], down3 \<mapsto> [''AXX'', ''BYY'']](across3 \<mapsto> [''BYY'']),
            True) \<and>
   revise (crossing across3 down3 PySet [''AXX'', ''BYY''])
       [across3 \<mapsto> [''AXX'', ''BYY''], down3 \<mapsto> [''AXX'', ''BYY'']] across3 down3
     = Inl RuntimeError"
proof -
  have "conflict_loop 0 0 ''AXX'' [''AXX'', ''BYY''] = Inr True"
    by (simp add: str_index_def)
  moreover have "conflict_loop 0 0 ''BYY'' [''AXX'', ''BYY''] = Inr True"
    by (simp add: str_index_def)
  moreover have "revise (crossing across3 down3 PyList [''AXX'', ''BYY''])
       [across3 \<mapsto> [''AXX'', ''BYY''], down3 \<mapsto> [''AXX'', ''BYY'']] across3 down3
     = Inr ([across3 \<mapsto> [''AXX'', ''BYY''], down3 \<mapsto> [''AXX'', ''BYY'']](across3 \<mapsto> [''BYY'']),
            True)"
    by (simp add: method_defs example_defs)
  moreover have "revise (crossing across3 down3 PySet [''AXX'', ''BYY''])
       [across3 \<mapsto> [''AXX'', ''BYY''], down3 \<mapsto> [''AXX'', ''BYY'']] across3 down3
     = Inl RuntimeError"
    by (simp add: method_defs example_defs)
  ultimately show ?thesis by simp
qed

end
